theory Spec2Isabelle
  imports Main
begin

section \<open>The Z interpreter (z.py): data model\<close>

text \<open>
  The interpreter is a Python program: a parser (the arpeggio library), a visitor that
  shapes the parse tree into objects, and the tree-walking evaluator \<open>run\<close> with its
  inner function \<open>evaluate\<close>. The model starts from the objects the visitor builds.

  Runtime values are the Python objects a Z program can compute: \<open>int\<close> (unbounded),
  \<open>float\<close>, \<open>str\<close>, \<open>bool\<close> and \<open>None\<close>. Python's floating point arithmetic is not
  modelled: the type of floats is the parameter \<open>'f\<close>, and what the host does with a
  float is taken from a record of host operations. Strings are lists of 8-bit characters.
\<close>

datatype 'f val = VInt int | VFloat 'f | VStr string | VBool bool | VNone

text \<open>
  How a run can end abnormally. \<open>Fatal msg\<close> is \<open>err(msg)\<close>: the message is printed by
  \<open>cprint\<close> and the process leaves through \<open>sys.exit(1)\<close>. The other constructors are
  Python exceptions that the source never catches (\<open>visit_program\<close> re-raises them);
  \<open>EmptyParseTree\<close> is the plain \<open>Exception\<close> with which the parser library's
  \<open>visit_parse_tree\<close> refuses an empty parse tree.
\<close>

datatype error =
  Fatal string | TypeError | IndexError | AttributeError | EOFError | OverflowError | EmptyParseTree

text \<open>
  What the host (Python) provides and the repository does not define: the float
  operations, and the conversions \<open>int(s)\<close> and \<open>float(s)\<close> of a line of input
  (\<open>None\<close> where Python raises \<open>ValueError\<close>). \<open>float_of_int\<close> is the implicit
  conversion of a mixed addition; it is \<open>None\<close> where Python raises \<open>OverflowError\<close>.
\<close>

record 'f host =
  float_add :: "'f \<Rightarrow> 'f \<Rightarrow> 'f"
  float_lt :: "'f \<Rightarrow> 'f \<Rightarrow> bool"
  float_of_int :: "int \<Rightarrow> 'f option"
  int_lt_float :: "int \<Rightarrow> 'f \<Rightarrow> bool"
  float_lt_int :: "'f \<Rightarrow> int \<Rightarrow> bool"
  float_bool :: "'f \<Rightarrow> bool"
  float_str :: "'f \<Rightarrow> string"
  int_of_str :: "string \<Rightarrow> int option"
  float_of_str :: "string \<Rightarrow> 'f option"

text \<open>
  The world outside: \<open>out\<close> is what the built-in \<open>print\<close> has written to standard
  output so far, \<open>inp\<close> the lines of standard input still to be read. The diagnostic
  of \<open>err\<close> is not part of \<open>out\<close>; the error value carries it.
\<close>

record world =
  out :: string
  inp :: "string list"

datatype 'a result = Ok 'a | Err error world | OutOfFuel

subsection \<open>Python's truth value, \<open>+\<close>, \<open><\<close> and \<open>str\<close> on these values\<close>

fun truthy :: "'f host \<Rightarrow> 'f val \<Rightarrow> bool" where
  "truthy h (VInt i) = (i \<noteq> 0)"
| "truthy h (VFloat x) = float_bool h x"
| "truthy h (VStr s) = (s \<noteq> [])"
| "truthy h (VBool b) = b"
| "truthy h VNone = False"

datatype 'f num = NInt int | NFloat 'f

text \<open>\<open>bool\<close> is a subclass of \<open>int\<close>: \<open>True\<close> counts as 1 and \<open>False\<close> as 0.\<close>

fun as_num :: "'f val \<Rightarrow> 'f num option" where
  "as_num (VInt i) = Some (NInt i)"
| "as_num (VBool b) = Some (NInt (if b then 1 else 0))"
| "as_num (VFloat x) = Some (NFloat x)"
| "as_num (VStr s) = None"
| "as_num VNone = None"

fun num_add :: "'f host \<Rightarrow> 'f num \<Rightarrow> 'f num \<Rightarrow> error + 'f val" where
  "num_add h (NInt a) (NInt b) = Inr (VInt (a + b))"
| "num_add h (NInt a) (NFloat y) =
     (case float_of_int h a of None \<Rightarrow> Inl OverflowError
      | Some x \<Rightarrow> Inr (VFloat (float_add h x y)))"
| "num_add h (NFloat x) (NInt b) =
     (case float_of_int h b of None \<Rightarrow> Inl OverflowError
      | Some y \<Rightarrow> Inr (VFloat (float_add h x y)))"
| "num_add h (NFloat x) (NFloat y) = Inr (VFloat (float_add h x y))"

fun py_add :: "'f host \<Rightarrow> 'f val \<Rightarrow> 'f val \<Rightarrow> error + 'f val" where
  "py_add h (VStr s) (VStr t) = Inr (VStr (s @ t))"
| "py_add h a b =
     (case as_num a of None \<Rightarrow> Inl TypeError
      | Some m \<Rightarrow> (case as_num b of None \<Rightarrow> Inl TypeError | Some n \<Rightarrow> num_add h m n))"

fun num_lt :: "'f host \<Rightarrow> 'f num \<Rightarrow> 'f num \<Rightarrow> bool" where
  "num_lt h (NInt a) (NInt b) = (a < b)"
| "num_lt h (NInt a) (NFloat y) = int_lt_float h a y"
| "num_lt h (NFloat x) (NInt b) = float_lt_int h x b"
| "num_lt h (NFloat x) (NFloat y) = float_lt h x y"

text \<open>Strings compare by code point, a proper prefix being smaller.\<close>

fun str_lt :: "string \<Rightarrow> string \<Rightarrow> bool" where
  "str_lt [] [] = False"
| "str_lt [] (d # t) = True"
| "str_lt (c # s) [] = False"
| "str_lt (c # s) (d # t) =
     (if (of_char c :: nat) < of_char d then True
      else if (of_char d :: nat) < of_char c then False
      else str_lt s t)"

fun py_lt :: "'f host \<Rightarrow> 'f val \<Rightarrow> 'f val \<Rightarrow> error + bool" where
  "py_lt h (VStr s) (VStr t) = Inr (str_lt s t)"
| "py_lt h a b =
     (case as_num a of None \<Rightarrow> Inl TypeError
      | Some m \<Rightarrow> (case as_num b of None \<Rightarrow> Inl TypeError | Some n \<Rightarrow> Inr (num_lt h m n)))"

definition digit_char :: "nat \<Rightarrow> char" where
  "digit_char d = ''0123456789'' ! d"

function show_nat :: "nat \<Rightarrow> string" where
  "show_nat n = (if n < 10 then [digit_char n] else show_nat (n div 10) @ [digit_char (n mod 10)])"
  by pat_completeness auto
termination
  by (relation "measure (\<lambda>n. n)") auto

definition show_int :: "int \<Rightarrow> string" where
  "show_int i = (if i < 0 then CHR ''-'' # show_nat (nat (- i)) else show_nat (nat i))"

text \<open>\<open>str(x)\<close>, what \<open>print(x, end="")\<close> writes.\<close>

fun py_str :: "'f host \<Rightarrow> 'f val \<Rightarrow> string" where
  "py_str h (VInt i) = show_int i"
| "py_str h (VFloat x) = float_str h x"
| "py_str h (VStr s) = s"
| "py_str h (VBool b) = (if b then ''True'' else ''False'')"
| "py_str h VNone = ''None''"

subsection \<open>The syntax tree\<close>

text \<open>
  The objects of the visitor. A number or string literal is the Python value itself
  (\<open>evaluate\<close> returns such a node unchanged). \<open>FunctionCall\<close> has \<open>params = None\<close>
  when the call has no argument list, and an \<open>ArgList\<close> otherwise. A statement is an
  assignment, a condition, or an expression; \<open>visit_statement\<close> wraps each in a list of
  one element, which \<open>run\<close> and \<open>evaluate\<close> unwrap again with \<open>[0]\<close>.
\<close>

datatype 'f expr =
    Literal "'f val"
  | Identifier string
  | Comparison "'f expr" "'f expr"
  | FunctionCall string "'f expr list option"

datatype 'f stmt =
    Assignment string "'f expr"
  | Condition "'f expr" "'f stmt list"
  | Expression "'f expr"

text \<open>
  \<open>params\<close> is \<open>None\<close> for a function declared without a parameter list, and the
  names of a \<open>ParamList\<close> otherwise; variable names keep their sigil, as in \<open>$n\<close>.
  (\<open>visit_function\<close> takes the second child for the parameter list only if a third
  child follows. A declaration with parameters and an empty body therefore becomes a
  \<open>Function\<close> with \<open>params = None\<close> whose \<open>statements\<close> hold the \<open>ParamList\<close>
  object; the model has no such \<open>Function\<close>.)
\<close>

record 'f Function =
  name :: string
  params :: "string list option"
  statements :: "'f stmt list"

datatype builtin = ZAdd | ZGet | ZNot | ZPrint

text \<open>An entry of the dictionary \<open>functions\<close>: a Python function (callable) or a
  \<open>Function\<close> object.\<close>

datatype 'f entry = Builtin builtin | User "'f Function"

type_synonym 'f registry = "string \<rightharpoonup> 'f entry"

text \<open>The variables of one call of \<open>run\<close> that \<open>evaluate\<close> reads and writes: the
  dictionary \<open>local\<close> and \<open>return_value\<close>; \<open>io\<close> is the world outside.\<close>

record 'f state =
  local :: "string \<rightharpoonup> 'f val"
  return_value :: "'f val"
  io :: world

section \<open>Functions in the Z language\<close>

definition zget :: "'f host \<Rightarrow> 'f val list \<Rightarrow> world \<Rightarrow> ('f val \<times> world) result" where
  "zget h args w =
     (case inp w of
        [] \<Rightarrow> Err EOFError w
      | content # rest \<Rightarrow>
          Ok (if CHR ''.'' \<in> set content
              then (case float_of_str h content of Some x \<Rightarrow> VFloat x | None \<Rightarrow> VStr content)
              else (case int_of_str h content of Some i \<Rightarrow> VInt i | None \<Rightarrow> VStr content),
              w\<lparr>inp := rest\<rparr>))"

definition zprint :: "'f host \<Rightarrow> 'f val list \<Rightarrow> world \<Rightarrow> ('f val \<times> world) result" where
  "zprint h args w =
     (case args of
        [] \<Rightarrow> Ok (VNone, w\<lparr>out := out w @ [CHR 0x0A]\<rparr>)
      | output # _ \<Rightarrow>
          (case output of
             VBool b \<Rightarrow> Ok (VNone, w\<lparr>out := out w @ (if b then ''true'' else ''false'')\<rparr>)
           | _ \<Rightarrow> Ok (VNone, w\<lparr>out := out w @ py_str h output\<rparr>)))"

definition znot :: "'f host \<Rightarrow> 'f val list \<Rightarrow> world \<Rightarrow> ('f val \<times> world) result" where
  "znot h args w =
     (case args of
        [] \<Rightarrow> Err (Fatal ''No arguments provided to function not.'') w
      | a # _ \<Rightarrow> Ok (VBool (\<not> truthy h a), w))"

definition zadd :: "'f host \<Rightarrow> 'f val list \<Rightarrow> world \<Rightarrow> ('f val \<times> world) result" where
  "zadd h args w =
     (case args of
        [] \<Rightarrow> Err (Fatal ''No arguments provided to function add.'') w
      | [a] \<Rightarrow> Err IndexError w
      | a # b # _ \<Rightarrow> (case py_add h a b of Inl e \<Rightarrow> Err e w | Inr v \<Rightarrow> Ok (v, w)))"

fun call_builtin :: "'f host \<Rightarrow> builtin \<Rightarrow> 'f val list \<Rightarrow> world \<Rightarrow> ('f val \<times> world) result" where
  "call_builtin h ZAdd args w = zadd h args w"
| "call_builtin h ZGet args w = zget h args w"
| "call_builtin h ZNot args w = znot h args w"
| "call_builtin h ZPrint args w = zprint h args w"

section \<open>The evaluator\<close>

text \<open>
  \<open>run(function, functions, *args)\<close>. The variable arguments \<open>*args\<close> are the list
  \<open>vargs\<close>: empty when \<open>visit_program\<close> calls \<open>run(main, self.functions)\<close>, and the one
  result of \<open>evaluate(statement.params)\<close> (a list of values, or \<open>None\<close>) when a call is
  evaluated. The first line of \<open>run\<close> turns both an absent and a \<open>None\<close> argument into
  the empty list.

  The inner function \<open>evaluate\<close> dispatches on the type of its argument. Here it is
  one function for each kind of argument: \<open>evaluate_stmt\<close> for a statement,
  \<open>evaluate\<close> for an expression, \<open>evaluate_params\<close> for the \<open>params\<close> of a call
  (\<open>None\<close> or an \<open>ArgList\<close>), with \<open>evaluate_list\<close> the \<open>map\<close> over an \<open>ArgList\<close>
  and \<open>evaluate_body\<close> the loop over the body of a condition. \<open>evaluate_stmt\<close>,
  \<open>evaluate\<close> and \<open>evaluate_params\<close> begin with the test
  \<open>if return_value: return\<close>, as every call of the inner function does. A statement
  that is an expression is that expression itself in the source, so the test is passed
  twice here and once there, in the same state. \<open>run_loop\<close> is the loop over
  \<open>function.statements\<close> with its \<open>break\<close>.

  User functions may call themselves without end, so \<open>run\<close> counts the nesting of
  calls: \<open>n\<close> is how deep calls of user functions may still nest, and \<open>OutOfFuel\<close>
  says that this was not enough.
\<close>

text \<open>The part of \<open>run\<close> that fills \<open>local\<close>: \<open>bind_zip\<close> is the loop
  \<open>for name, value in zip(...): local[name] = value\<close>. \<open>function.params.params\<close> raises
  \<open>AttributeError\<close> when \<open>function.params\<close> is \<open>None\<close>.\<close>

fun bind_zip :: "(string \<rightharpoonup> 'f val) \<Rightarrow> (string \<times> 'f val) list \<Rightarrow> (string \<rightharpoonup> 'f val)" where
  "bind_zip loc [] = loc"
| "bind_zip loc ((x, v) # rest) = bind_zip (loc(x \<mapsto> v)) rest"

definition bind_params :: "'f Function \<Rightarrow> 'f val list \<Rightarrow> error + (string \<rightharpoonup> 'f val)" where
  "bind_params f args =
     (if args \<noteq> [] then
        (case params f of
           None \<Rightarrow> Inl AttributeError
         | Some ps \<Rightarrow>
             if length args \<noteq> length ps
             then Inl (Fatal (''Incorrect number of arguments to function '' @ name f))
             else Inr (bind_zip Map.empty (zip ps args)))
      else Inr Map.empty)"

function (sequential)
    run :: "nat \<Rightarrow> 'f host \<Rightarrow> 'f registry \<Rightarrow> 'f entry \<Rightarrow> 'f val list option list \<Rightarrow> world
            \<Rightarrow> ('f val \<times> world) result"
and run_loop :: "nat \<Rightarrow> 'f host \<Rightarrow> 'f registry \<Rightarrow> 'f stmt list \<Rightarrow> 'f state
            \<Rightarrow> ('f val \<times> world) result"
and evaluate_stmt :: "nat \<Rightarrow> 'f host \<Rightarrow> 'f registry \<Rightarrow> 'f stmt \<Rightarrow> 'f state \<Rightarrow> 'f state result"
and evaluate_body :: "nat \<Rightarrow> 'f host \<Rightarrow> 'f registry \<Rightarrow> 'f stmt list \<Rightarrow> 'f state \<Rightarrow> 'f state result"
and evaluate :: "nat \<Rightarrow> 'f host \<Rightarrow> 'f registry \<Rightarrow> 'f expr \<Rightarrow> 'f state \<Rightarrow> ('f val \<times> 'f state) result"
and evaluate_params :: "nat \<Rightarrow> 'f host \<Rightarrow> 'f registry \<Rightarrow> 'f expr list option \<Rightarrow> 'f state
            \<Rightarrow> ('f val list option \<times> 'f state) result"
and evaluate_list :: "nat \<Rightarrow> 'f host \<Rightarrow> 'f registry \<Rightarrow> 'f expr list \<Rightarrow> 'f state
            \<Rightarrow> ('f val list \<times> 'f state) result"
where
  "run n h functions function vargs w =
     (let args = (case vargs of [] \<Rightarrow> [] | a # _ \<Rightarrow> (case a of None \<Rightarrow> [] | Some l \<Rightarrow> l)) in
      case function of
        Builtin b \<Rightarrow> call_builtin h b args w
      | User f \<Rightarrow>
          (case bind_params f args of
             Inl e \<Rightarrow> Err e w
           | Inr loc \<Rightarrow>
               (case n of
                  0 \<Rightarrow> OutOfFuel
                | Suc k \<Rightarrow> run_loop k h functions (statements f)
                             \<lparr>local = loc, return_value = VNone, io = w\<rparr>)))"
| "run_loop k h functions [] s = Ok (return_value s, io s)"
| "run_loop k h functions (st # rest) s =
     (case evaluate_stmt k h functions st s of
        Ok s' \<Rightarrow>
          if truthy h (return_value s') then Ok (return_value s', io s')
          else run_loop k h functions rest s'
      | Err e w \<Rightarrow> Err e w
      | OutOfFuel \<Rightarrow> OutOfFuel)"
| "evaluate_stmt k h functions st s =
     (if truthy h (return_value s) then Ok s
      else case st of
        Assignment x e \<Rightarrow>
          (case evaluate k h functions e s of
             Ok (v, s') \<Rightarrow> Ok (s'\<lparr>local := (local s')(x \<mapsto> v)\<rparr>)
           | Err er w \<Rightarrow> Err er w
           | OutOfFuel \<Rightarrow> OutOfFuel)
      | Condition c body \<Rightarrow>
          (case evaluate k h functions c s of
             Ok (v, s') \<Rightarrow> if \<not> truthy h v then Ok s' else evaluate_body k h functions body s'
           | Err er w \<Rightarrow> Err er w
           | OutOfFuel \<Rightarrow> OutOfFuel)
      | Expression e \<Rightarrow>
          (case evaluate k h functions e s of
             Ok (v, s') \<Rightarrow> Ok s'
           | Err er w \<Rightarrow> Err er w
           | OutOfFuel \<Rightarrow> OutOfFuel))"
| "evaluate_body k h functions [] s = Ok s"
| "evaluate_body k h functions (child # rest) s =
     (case evaluate_stmt k h functions child s of
        Ok s' \<Rightarrow> evaluate_body k h functions rest s'
      | Err er w \<Rightarrow> Err er w
      | OutOfFuel \<Rightarrow> OutOfFuel)"
| "evaluate k h functions e s =
     (if truthy h (return_value s) then Ok (VNone, s)
      else case e of
        Comparison l r \<Rightarrow>
          (case evaluate k h functions l s of
             Ok (a, s1) \<Rightarrow>
               (case evaluate k h functions r s1 of
                  Ok (b, s2) \<Rightarrow>
                    (case py_lt h a b of
                       Inl er \<Rightarrow> Err er (io s2)
                     | Inr t \<Rightarrow> Ok (VBool t, s2))
                | Err er w \<Rightarrow> Err er w
                | OutOfFuel \<Rightarrow> OutOfFuel)
           | Err er w \<Rightarrow> Err er w
           | OutOfFuel \<Rightarrow> OutOfFuel)
      | FunctionCall f ps \<Rightarrow>
          if f = ''return'' then
            (case evaluate_params k h functions ps s of
               Ok (r, s') \<Rightarrow>
                 (case r of
                    None \<Rightarrow> Err TypeError (io s')
                  | Some [] \<Rightarrow> Err IndexError (io s')
                  | Some (v # _) \<Rightarrow> Ok (VNone, s'\<lparr>return_value := v\<rparr>))
             | Err er w \<Rightarrow> Err er w
             | OutOfFuel \<Rightarrow> OutOfFuel)
          else
            (case functions f of
               None \<Rightarrow> Err (Fatal (''Undefined function '' @ f)) (io s)
             | Some callee \<Rightarrow>
                 (case evaluate_params k h functions ps s of
                    Ok (r, s') \<Rightarrow>
                      (case run k h functions callee [r] (io s') of
                         Ok (v, w) \<Rightarrow> Ok (v, s'\<lparr>io := w\<rparr>)
                       | Err er w \<Rightarrow> Err er w
                       | OutOfFuel \<Rightarrow> OutOfFuel)
                  | Err er w \<Rightarrow> Err er w
                  | OutOfFuel \<Rightarrow> OutOfFuel))
      | Identifier x \<Rightarrow>
          (case local s x of
             Some v \<Rightarrow> Ok (v, s)
           | None \<Rightarrow> Err (Fatal (''Undefined variable '' @ x)) (io s))
      | Literal v \<Rightarrow> Ok (v, s))"
| "evaluate_params k h functions ps s =
     (if truthy h (return_value s) then Ok (None, s)
      else case ps of
        None \<Rightarrow> Ok (None, s)
      | Some es \<Rightarrow>
          (case evaluate_list k h functions es s of
             Ok (vs, s') \<Rightarrow> Ok (Some vs, s')
           | Err er w \<Rightarrow> Err er w
           | OutOfFuel \<Rightarrow> OutOfFuel))"
| "evaluate_list k h functions [] s = Ok ([], s)"
| "evaluate_list k h functions (e # es) s =
     (case evaluate k h functions e s of
        Ok (v, s1) \<Rightarrow>
          (case evaluate_list k h functions es s1 of
             Ok (vs, s2) \<Rightarrow> Ok (v # vs, s2)
           | Err er w \<Rightarrow> Err er w
           | OutOfFuel \<Rightarrow> OutOfFuel)
      | Err er w \<Rightarrow> Err er w
      | OutOfFuel \<Rightarrow> OutOfFuel)"
  by pat_completeness auto

termination
proof (relation "measures
   [case_sum (case_sum (\<lambda>(n, _). n) (case_sum (\<lambda>(k, _). k) (\<lambda>(k, _). k)))
             (case_sum (case_sum (\<lambda>(k, _). k) (\<lambda>(k, _). k)) (case_sum (\<lambda>(k, _). k) (\<lambda>(k, _). k))),
    case_sum (case_sum (\<lambda>_. 0) (case_sum (\<lambda>_. 2) (\<lambda>_. 2)))
             (case_sum (case_sum (\<lambda>_. 2) (\<lambda>_. 1)) (case_sum (\<lambda>_. 1) (\<lambda>_. 1))),
    case_sum (case_sum (\<lambda>_. 0)
                (case_sum (\<lambda>(_, _, _, sts, _). size_list size sts) (\<lambda>(_, _, _, st, _). size st)))
             (case_sum
                (case_sum (\<lambda>(_, _, _, sts, _). size_list size sts) (\<lambda>(_, _, _, e, _). size e))
                (case_sum (\<lambda>(_, _, _, ps, _). size_option (size_list size) ps)
                          (\<lambda>(_, _, _, es, _). size_list size es)))]", goal_cases)
qed simp_all


section \<open>The program and its entry point\<close>

text \<open>
  \<open>ZVisitor.visit_program\<close>: \<open>children\<close> are the \<open>Function\<close> objects of the
  declarations, in the order of the source text. The loop enters each into the
  dictionary \<open>functions\<close> and remembers the last one named \<open>main\<close>.
\<close>

fun visit_program_loop ::
  "'f Function list \<Rightarrow> 'f Function option \<Rightarrow> 'f registry \<Rightarrow> 'f Function option \<times> 'f registry"
where
  "visit_program_loop [] main functions = (main, functions)"
| "visit_program_loop (fn # rest) main functions =
     visit_program_loop rest (if name fn = ''main'' then Some fn else main)
       (functions(name fn \<mapsto> User fn))"

definition visit_program ::
  "nat \<Rightarrow> 'f host \<Rightarrow> 'f Function list \<Rightarrow> 'f registry \<Rightarrow> world \<Rightarrow> world result"
where
  "visit_program n h children functions w =
     (case visit_program_loop children None functions of
        (main, fns) \<Rightarrow>
          (case main of
             None \<Rightarrow> Err (Fatal ''Program needs a main function.'') w
           | Some m \<Rightarrow>
               (case run n h fns (User m) [] w of
                  Ok (v, w') \<Rightarrow> Ok w'
                | Err e w' \<Rightarrow> Err e w'
                | OutOfFuel \<Rightarrow> OutOfFuel)))"

text \<open>The dictionary that \<open>main\<close> hands to the visitor.\<close>

definition builtins :: "'f registry" where
  "builtins = [''add'' \<mapsto> Builtin ZAdd, ''get'' \<mapsto> Builtin ZGet,
               ''not'' \<mapsto> Builtin ZNot, ''print'' \<mapsto> Builtin ZPrint]"

text \<open>
  \<open>main\<close>, from the parsed program on. The grammar is \<open>program = ZeroOrMore(function)\<close>:
  a source text without any function declaration parses to an empty tree, for which
  \<open>visit_parse_tree\<close> raises its exception before any method of the visitor is called.
  So \<open>visit_program\<close> runs only for a program with at least one declaration.
\<close>

definition main :: "nat \<Rightarrow> 'f host \<Rightarrow> 'f Function list \<Rightarrow> world \<Rightarrow> world result" where
  "main n h children w =
     (if children = [] then Err EmptyParseTree w
      else visit_program n h children builtins w)"

section \<open>Example programs\<close>

text \<open>
  A host for running programs that use neither floats nor input: its float type has
  one element, and no line of input converts to a number.
\<close>

definition plain_host :: "unit host" where
  "plain_host =
     \<lparr>float_add = (\<lambda>_ _. ()), float_lt = (\<lambda>_ _. False), float_of_int = (\<lambda>_. Some ()),
      int_lt_float = (\<lambda>_ _. False), float_lt_int = (\<lambda>_ _. False), float_bool = (\<lambda>_. False),
      float_str = (\<lambda>_. ''0.0''), int_of_str = (\<lambda>_. None), float_of_str = (\<lambda>_. None)\<rparr>"

definition world0 :: world where
  "world0 = \<lparr>out = [], inp = []\<rparr>"

text \<open>The variables of a call of \<open>run\<close> that received no arguments, before its first
  statement.\<close>

definition state0 :: "'f state" where
  "state0 = \<lparr>local = Map.empty, return_value = VNone, io = world0\<rparr>"

text \<open>The statements \<open>print("x")\<close> and \<open>return(e)\<close>, and a program that consists of
  \<open>function main() { body }\<close>.\<close>

definition print_x :: "'f stmt" where
  "print_x = Expression (FunctionCall ''print'' (Some [Literal (VStr ''x'')]))"

definition return_of :: "'f expr \<Rightarrow> 'f stmt" where
  "return_of e = Expression (FunctionCall ''return'' (Some [e]))"

definition main_only :: "'f stmt list \<Rightarrow> 'f Function list" where
  "main_only body = [\<lparr>name = ''main'', params = None, statements = body\<rparr>]"

text \<open>\<^verbatim>\<open>function f($a) { print("x") }  function main() { f() }\<close>\<close>

definition arity_zero_args :: "'f Function list" where
  "arity_zero_args =
     [\<lparr>name = ''f'', params = Some [''$a''], statements = [print_x]\<rparr>,
      \<lparr>name = ''main'', params = None, statements = [Expression (FunctionCall ''f'' None)]\<rparr>]"

text \<open>\<^verbatim>\<open>function g() { print("x") }  function main() { g(1) }\<close>\<close>

definition arity_no_params :: "'f Function list" where
  "arity_no_params =
     [\<lparr>name = ''g'', params = None, statements = [print_x]\<rparr>,
      \<lparr>name = ''main'', params = None,
        statements = [Expression (FunctionCall ''g'' (Some [Literal (VInt 1)]))]\<rparr>]"

text \<open>\<^verbatim>\<open>function double($n) { return(add($n, $n)) }  function main() { print(double(1, 2)) }\<close>\<close>

definition arity_scenario :: "'f Function list" where
  "arity_scenario =
     [\<lparr>name = ''double'', params = Some [''$n''],
        statements = [return_of (FunctionCall ''add'' (Some [Identifier ''$n'', Identifier ''$n'']))]\<rparr>,
      \<lparr>name = ''main'', params = None,
        statements = [Expression (FunctionCall ''print''
           (Some [FunctionCall ''double'' (Some [Literal (VInt 1), Literal (VInt 2)])]))]\<rparr>]"

text \<open>\<^verbatim>\<open>function f() { print("x") }\<close>, a program without \<open>main\<close>.\<close>

definition no_main_program :: "'f Function list" where
  "no_main_program = [\<lparr>name = ''f'', params = None, statements = [print_x]\<rparr>]"

text \<open>\<^verbatim>\<open>function main() { $x <- 5  if ($x < 10) { print("small") } }\<close>\<close>

definition scenario1 :: "'f Function list" where
  "scenario1 = main_only
     [Assignment ''$x'' (Literal (VInt 5)),
      Condition (Comparison (Identifier ''$x'') (Literal (VInt 10)))
        [Expression (FunctionCall ''print'' (Some [Literal (VStr ''small'')]))]]"

text \<open>\<^verbatim>\<open>function f() { print($x) }  function main() { $x <- 1  f() }\<close>\<close>

definition scope_program :: "'f Function list" where
  "scope_program =
     [\<lparr>name = ''f'', params = None,
        statements = [Expression (FunctionCall ''print'' (Some [Identifier ''$x'']))]\<rparr>,
      \<lparr>name = ''main'', params = None,
        statements = [Assignment ''$x'' (Literal (VInt 1)), Expression (FunctionCall ''f'' None)]\<rparr>]"

text \<open>\<^verbatim>\<open>function f($a) { print("x") }\<close>, \<^verbatim>\<open>function f() { return(5) }\<close> and
  \<^verbatim>\<open>function main() { return(return(5))  print("x") }\<close>\<close>

definition one_param :: "'f Function" where
  "one_param = \<lparr>name = ''f'', params = Some [''$a''], statements = [print_x]\<rparr>"

definition returns_five :: "'f Function" where
  "returns_five = \<lparr>name = ''f'', params = None, statements = [return_of (Literal (VInt 5))]\<rparr>"

text \<open>A program that declares \<open>f\<close> twice, and \<open>main\<close>.\<close>

definition duplicate_program :: "'f Function list" where
  "duplicate_program = [one_param, returns_five, \<lparr>name = ''main'', params = None, statements = []\<rparr>]"

definition nested_return :: "'f Function" where
  "nested_return = \<lparr>name = ''main'', params = None,
     statements = [return_of (FunctionCall ''return'' (Some [Literal (VInt 5)])), print_x]\<rparr>"

section \<open>Properties of the evaluator\<close>

subsection \<open>One equation for each kind of node\<close>

text \<open>
  The equations of \<open>run\<close> and \<open>evaluate\<close> rewrite any call of these functions, so
  they are taken out of the simplifier and replaced by one equation for each kind of
  node, and by the equations for a call that finds a truthy \<open>return_value\<close>.
\<close>

declare run.simps [simp del] evaluate_stmt.simps [simp del] evaluate.simps [simp del]
  evaluate_params.simps [simp del]

lemma run_Builtin [simp]:
  "run n h fns (Builtin b) vargs w =
     call_builtin h b (case vargs of [] \<Rightarrow> [] | a # _ \<Rightarrow> (case a of None \<Rightarrow> [] | Some l \<Rightarrow> l)) w"
  by (simp add: run.simps)

lemma run_User:
  "run n h fns (User f) vargs w =
     (case bind_params f (case vargs of [] \<Rightarrow> [] | a # _ \<Rightarrow> (case a of None \<Rightarrow> [] | Some l \<Rightarrow> l)) of
        Inl e \<Rightarrow> Err e w
      | Inr loc \<Rightarrow>
          (case n of 0 \<Rightarrow> OutOfFuel
           | Suc k \<Rightarrow> run_loop k h fns (statements f) \<lparr>local = loc, return_value = VNone, io = w\<rparr>))"
  by (simp add: run.simps)

lemma evaluate_stmt_pending [simp]:
  "truthy h (return_value s) \<Longrightarrow> evaluate_stmt k h fns st s = Ok s"
  by (simp add: evaluate_stmt.simps)

lemma evaluate_pending [simp]:
  "truthy h (return_value s) \<Longrightarrow> evaluate k h fns e s = Ok (VNone, s)"
  by (simp add: evaluate.simps)

lemma evaluate_params_pending [simp]:
  "truthy h (return_value s) \<Longrightarrow> evaluate_params k h fns ps s = Ok (None, s)"
  by (simp add: evaluate_params.simps)

lemma evaluate_body_pending [simp]:
  "truthy h (return_value s) \<Longrightarrow> evaluate_body k h fns body s = Ok s"
  by (induction body) simp_all

lemma evaluate_list_pending:
  "truthy h (return_value s) \<Longrightarrow>
     evaluate_list k h fns es s = Ok (replicate (length es) VNone, s)"
  by (induction es) simp_all

lemma evaluate_stmt_Assignment:
  "\<not> truthy h (return_value s) \<Longrightarrow>
   evaluate_stmt k h fns (Assignment x e) s =
     (case evaluate k h fns e s of
        Ok (v, s') \<Rightarrow> Ok (s'\<lparr>local := (local s')(x \<mapsto> v)\<rparr>)
      | Err er w \<Rightarrow> Err er w
      | OutOfFuel \<Rightarrow> OutOfFuel)"
  by (simp add: evaluate_stmt.simps)

lemma evaluate_stmt_Condition:
  "\<not> truthy h (return_value s) \<Longrightarrow>
   evaluate_stmt k h fns (Condition c body) s =
     (case evaluate k h fns c s of
        Ok (v, s') \<Rightarrow> if \<not> truthy h v then Ok s' else evaluate_body k h fns body s'
      | Err er w \<Rightarrow> Err er w
      | OutOfFuel \<Rightarrow> OutOfFuel)"
  by (simp add: evaluate_stmt.simps)

lemma evaluate_stmt_Expression:
  "evaluate_stmt k h fns (Expression e) s =
     (case evaluate k h fns e s of
        Ok (v, s') \<Rightarrow> Ok s'
      | Err er w \<Rightarrow> Err er w
      | OutOfFuel \<Rightarrow> OutOfFuel)"
  by (simp add: evaluate_stmt.simps)

lemma evaluate_Literal:
  "\<not> truthy h (return_value s) \<Longrightarrow> evaluate k h fns (Literal v) s = Ok (v, s)"
  by (simp add: evaluate.simps)

lemma evaluate_Identifier:
  "\<not> truthy h (return_value s) \<Longrightarrow>
   evaluate k h fns (Identifier x) s =
     (case local s x of
        Some v \<Rightarrow> Ok (v, s)
      | None \<Rightarrow> Err (Fatal (''Undefined variable '' @ x)) (io s))"
  by (simp add: evaluate.simps)

lemma evaluate_Comparison:
  "\<not> truthy h (return_value s) \<Longrightarrow>
   evaluate k h fns (Comparison l r) s =
     (case evaluate k h fns l s of
        Ok (a, s1) \<Rightarrow>
          (case evaluate k h fns r s1 of
             Ok (b, s2) \<Rightarrow>
               (case py_lt h a b of Inl er \<Rightarrow> Err er (io s2) | Inr t \<Rightarrow> Ok (VBool t, s2))
           | Err er w \<Rightarrow> Err er w
           | OutOfFuel \<Rightarrow> OutOfFuel)
      | Err er w \<Rightarrow> Err er w
      | OutOfFuel \<Rightarrow> OutOfFuel)"
  by (simp add: evaluate.simps)

lemma evaluate_return:
  "\<not> truthy h (return_value s) \<Longrightarrow>
   evaluate k h fns (FunctionCall ''return'' ps) s =
     (case evaluate_params k h fns ps s of
        Ok (r, s') \<Rightarrow>
          (case r of
             None \<Rightarrow> Err TypeError (io s')
           | Some [] \<Rightarrow> Err IndexError (io s')
           | Some (v # _) \<Rightarrow> Ok (VNone, s'\<lparr>return_value := v\<rparr>))
      | Err er w \<Rightarrow> Err er w
      | OutOfFuel \<Rightarrow> OutOfFuel)"
  by (simp add: evaluate.simps)

lemma evaluate_call:
  "\<not> truthy h (return_value s) \<Longrightarrow> f \<noteq> ''return'' \<Longrightarrow>
   evaluate k h fns (FunctionCall f ps) s =
     (case fns f of
        None \<Rightarrow> Err (Fatal (''Undefined function '' @ f)) (io s)
      | Some callee \<Rightarrow>
          (case evaluate_params k h fns ps s of
             Ok (r, s') \<Rightarrow>
               (case run k h fns callee [r] (io s') of
                  Ok (v, w) \<Rightarrow> Ok (v, s'\<lparr>io := w\<rparr>)
                | Err er w \<Rightarrow> Err er w
                | OutOfFuel \<Rightarrow> OutOfFuel)
           | Err er w \<Rightarrow> Err er w
           | OutOfFuel \<Rightarrow> OutOfFuel))"
  by (simp add: evaluate.simps)

lemma evaluate_params_None:
  "evaluate_params k h fns None s = Ok (None, s)"
  by (simp add: evaluate_params.simps)

lemma evaluate_params_Some:
  "\<not> truthy h (return_value s) \<Longrightarrow>
   evaluate_params k h fns (Some es) s =
     (case evaluate_list k h fns es s of
        Ok (vs, s') \<Rightarrow> Ok (Some vs, s')
      | Err er w \<Rightarrow> Err er w
      | OutOfFuel \<Rightarrow> OutOfFuel)"
  by (simp add: evaluate_params.simps)

subsection \<open>Expressions leave the local scope alone\<close>

text \<open>Only an \<open>Assignment\<close> writes \<open>local\<close>, and an assignment is a statement:
  whatever an expression does (calls, \<open>return\<close>, input and output), the dictionary
  \<open>local\<close> of the current call is the same afterwards.\<close>

lemma evaluate_list_local:
  assumes "\<And>e v s s'. e \<in> set es \<Longrightarrow> evaluate k h fns e s = Ok (v, s') \<Longrightarrow> local s' = local s"
  shows "evaluate_list k h fns es s = Ok (vs, s') \<Longrightarrow> local s' = local s"
  using assms
proof (induction es arbitrary: s vs)
  case Nil
  then show ?case by simp
next
  case (Cons e es)
  from Cons.prems(1) obtain v s1 vs' where
    e: "evaluate k h fns e s = Ok (v, s1)" and r: "evaluate_list k h fns es s1 = Ok (vs', s')"
    by (auto split: result.splits)
  have "local s1 = local s"
    by (rule Cons.prems(2) [OF _ e]) simp
  moreover have "local s' = local s1"
  proof (rule Cons.IH [OF r])
    fix e' v t t'
    assume "e' \<in> set es" and "evaluate k h fns e' t = Ok (v, t')"
    then show "local t' = local t"
      using Cons.prems(2) [of e' t v t'] by simp
  qed
  ultimately show ?case by simp
qed

lemma evaluate_local:
  "evaluate k h fns e s = Ok (v, s') \<Longrightarrow> local s' = local s"
proof (induction e arbitrary: s v s')
  case (Literal x)
  then show ?case by (cases "truthy h (return_value s)") (auto simp: evaluate_Literal)
next
  case (Identifier x)
  then show ?case
    by (cases "truthy h (return_value s)") (auto simp: evaluate_Identifier split: option.splits)
next
  case (Comparison l r)
  show ?case
  proof (cases "truthy h (return_value s)")
    case True
    with Comparison.prems show ?thesis by simp
  next
    case False
    with Comparison.prems obtain a s1 b where
      l: "evaluate k h fns l s = Ok (a, s1)" and r: "evaluate k h fns r s1 = Ok (b, s')"
      by (auto simp: evaluate_Comparison split: result.splits sum.splits)
    show ?thesis using Comparison.IH(1) [OF l] Comparison.IH(2) [OF r] by simp
  qed
next
  case (FunctionCall f ps)
  have args: "\<And>es vs s1 s2. ps = Some es \<Longrightarrow> evaluate_list k h fns es s1 = Ok (vs, s2)
                \<Longrightarrow> local s2 = local s1"
  proof -
    fix es vs s1 s2
    assume ps: "ps = Some es" and ev: "evaluate_list k h fns es s1 = Ok (vs, s2)"
    show "local s2 = local s1"
      by (rule evaluate_list_local [OF _ ev]) (use FunctionCall.IH ps in auto)
  qed
  have params: "\<And>r s1 s2. evaluate_params k h fns ps s1 = Ok (r, s2) \<Longrightarrow> local s2 = local s1"
  proof -
    fix r s1 s2
    assume ev: "evaluate_params k h fns ps s1 = Ok (r, s2)"
    show "local s2 = local s1"
    proof (cases "truthy h (return_value s1)")
      case True
      with ev show ?thesis by simp
    next
      case False
      with ev args show ?thesis
        by (cases ps) (auto simp: evaluate_params_None evaluate_params_Some split: result.splits)
    qed
  qed
  show ?case
  proof (cases "truthy h (return_value s)")
    case True
    with FunctionCall.prems show ?thesis by simp
  next
    case False
    show ?thesis
    proof (cases "f = ''return''")
      case True
      with False FunctionCall.prems params show ?thesis
        by (auto simp: evaluate_return split: result.splits option.splits list.splits)
    next
      case ne: False
      with False FunctionCall.prems params show ?thesis
        by (auto simp: evaluate_call split: result.splits option.splits)
    qed
  qed
qed

lemma evaluate_params_local:
  "evaluate_params k h fns ps s = Ok (r, s') \<Longrightarrow> local s' = local s"
proof (cases "truthy h (return_value s)")
  case True
  assume "evaluate_params k h fns ps s = Ok (r, s')"
  with True show ?thesis by simp
next
  case False
  assume ev: "evaluate_params k h fns ps s = Ok (r, s')"
  show ?thesis
  proof (cases ps)
    case None
    with ev show ?thesis by (simp add: evaluate_params_None)
  next
    case (Some es)
    with ev False obtain vs where l: "evaluate_list k h fns es s = Ok (vs, s')"
      by (auto simp: evaluate_params_Some split: result.splits)
    show ?thesis by (rule evaluate_list_local [OF _ l]) (rule evaluate_local)
  qed
qed


subsection \<open>The loops\<close>


lemma evaluate_list_single:
  "evaluate k h fns e s = Ok (v, s') \<Longrightarrow> evaluate_list k h fns [e] s = Ok ([v], s')"
  by simp

subsection \<open>The registry built by \<open>visit_program\<close>\<close>

lemma visit_program_loop_main:
  "fst (visit_program_loop children m fns) =
     (case filter (\<lambda>f. name f = ''main'') children of [] \<Rightarrow> m | g # gs \<Rightarrow> Some (last (g # gs)))"
proof (induction children arbitrary: m fns)
  case Nil
  then show ?case by simp
next
  case (Cons fn rest)
  then show ?case by (simp split: list.splits)
qed

lemma visit_program_loop_registry:
  "snd (visit_program_loop children m fns) x =
     (case filter (\<lambda>f. name f = x) children of [] \<Rightarrow> fns x | g # gs \<Rightarrow> Some (User (last (g # gs))))"
proof (induction children arbitrary: m fns)
  case Nil
  then show ?case by simp
next
  case (Cons fn rest)
  then show ?case by (simp split: list.splits)
qed

lemma visit_program_loop_dom:
  "dom (snd (visit_program_loop children m fns)) = dom fns \<union> name ` set children"
  by (induction children arbitrary: m fns) auto

lemma filter_empty_iff: "filter P xs = [] \<longleftrightarrow> (\<forall>x\<in>set xs. \<not> P x)"
  by (induction xs) auto

subsection \<open>The local scope of a call\<close>

lemma bind_zip_map_of:
  "bind_zip m0 xs = m0 ++ map_of (rev xs)"
proof (induction xs arbitrary: m0)
  case Nil
  then show ?case by simp
next
  case (Cons a xs)
  obtain x v where a: "a = (x, v)" by (cases a)
  have "bind_zip m0 (a # xs) = bind_zip (m0(x \<mapsto> v)) xs"
    by (simp only: a bind_zip.simps)
  also have "\<dots> = m0(x \<mapsto> v) ++ map_of (rev xs)"
    by (rule Cons.IH)
  also have "\<dots> = m0 ++ map_of (rev (a # xs))"
    by (simp add: a)
  finally show ?case .
qed
lemma bind_params_dom:
  assumes "bind_params f args = Inr loc"
  shows "dom loc \<subseteq> (case params f of None \<Rightarrow> {} | Some ps \<Rightarrow> set ps)"
  using assms
  by (auto simp: bind_params_def bind_zip_map_of split: if_splits option.splits dest!: map_of_SomeD set_zip_leftD)

lemma bind_params_nth:
  assumes "params f = Some ps" and "length args = length ps" and "distinct ps" and "i < length ps"
  shows "\<exists>loc. bind_params f args = Inr loc \<and> loc (ps ! i) = Some (args ! i)"
proof -
  have d: "distinct (map fst (zip ps args))"
    using assms(2,3) by simp
  have "map_of (rev (zip ps args)) = map_of (zip ps args)"
    by (rule map_of_inject_set [THEN iffD2]) (use d in \<open>simp_all add: rev_map [symmetric]\<close>)
  moreover have "map_of (zip ps args) (ps ! i) = Some (args ! i)"
    using assms by (simp add: map_of_zip_nth)
  moreover have "args \<noteq> []" using assms(2,4) by auto
  ultimately show ?thesis
    using assms(1,2) by (simp add: bind_params_def bind_zip_map_of)
qed

lemma run_without_arguments:
  "run (Suc k) h fns (User f) [] w
     = run_loop k h fns (statements f) \<lparr>local = Map.empty, return_value = VNone, io = w\<rparr>"
  "run (Suc k) h fns (User f) [None] w
     = run_loop k h fns (statements f) \<lparr>local = Map.empty, return_value = VNone, io = w\<rparr>"
  by (simp_all add: run_User bind_params_def)

lemma run_arity_mismatch:
  "args \<noteq> [] \<Longrightarrow> params f = Some ps \<Longrightarrow> length args \<noteq> length ps \<Longrightarrow>
   run n h fns (User f) [Some args] w
     = Err (Fatal (''Incorrect number of arguments to function '' @ name f)) w"
  by (simp add: run_User bind_params_def)

lemma run_no_params_with_arguments:
  "args \<noteq> [] \<Longrightarrow> params f = None \<Longrightarrow>
   run n h fns (User f) [Some args] w = Err AttributeError w"
  by (simp add: run_User bind_params_def)

lemma zadd_one_argument: "zadd h [a] w = Err IndexError w"
  by (simp add: zadd_def)

text \<open>The facts that evaluate a closed program.\<close>

lemmas ev_simps = evaluate_stmt_Assignment evaluate_stmt_Condition evaluate_stmt_Expression
  evaluate_Literal evaluate_Identifier evaluate_Comparison evaluate_return evaluate_call
  evaluate_params_None evaluate_params_Some run_User bind_params_def
  zadd_def zprint_def znot_def zget_def builtins_def plain_host_def world0_def state0_def
  main_def visit_program_def main_only_def print_x_def return_of_def

subsection \<open>The scenarios of the specification\<close>

text \<open>
  The four literal programs of the specification, run by the model: the first prints
  \<open>small\<close>, the second ends in the arity error that names \<open>double\<close>, the third in the
  error for the undefined variable \<open>$y\<close>, and the fourth prints \<open>true\<close>.
\<close>

lemma spec_scenarios:
  "main 1 plain_host scenario1 world0 = Ok \<lparr>out = ''small'', inp = []\<rparr>"
  "main 2 plain_host arity_scenario world0
     = Err (Fatal ''Incorrect number of arguments to function double'') world0"
  "main 1 plain_host (main_only [Expression (FunctionCall ''print'' (Some [Identifier ''$y'']))]) world0
     = Err (Fatal ''Undefined variable $y'') world0"
  "main 1 plain_host (main_only [Expression (FunctionCall ''print''
       (Some [FunctionCall ''not'' (Some [Comparison (Literal (VInt 5)) (Literal (VInt 3))])]))]) world0
     = Ok \<lparr>out = ''true'', inp = []\<rparr>"
  by (simp_all add: ev_simps scenario1_def arity_scenario_def)

section \<open>The claims of the specification\<close>

subsection \<open>C1: the arity check of a call\<close>

text \<open>
  Claim C1: every call of a user function checks that the number of argument values
  equals the number of parameters; any mismatch, also a function with parameters called
  without arguments and a function without parameters called with arguments, is the
  fatal arity error that names the function; on a match the parameters are bound to
  the arguments in a fresh local scope.

  \<open>run\<close> makes the comparison only under \<open>if args:\<close>. A call without arguments is
  never compared (\<open>run_without_arguments\<close>): \<open>f()\<close> runs the body of
  \<open>function f($a)\<close> with an empty scope. A function declared without parameters has
  \<open>params = None\<close>, so a call with arguments ends in the host's \<open>AttributeError\<close>
  (\<open>run_no_params_with_arguments\<close>) and not in the arity error. Where both sides are
  present the check is made (\<open>run_arity_mismatch\<close>, the third program below) and the
  parameters are bound (\<open>bind_params_nth\<close>).
\<close>

theorem arity_check_skipped:
  "main 2 plain_host arity_zero_args world0 = Ok \<lparr>out = ''x'', inp = []\<rparr>
   \<and> main 2 plain_host arity_no_params world0 = Err AttributeError world0
   \<and> main 2 plain_host arity_scenario world0
       = Err (Fatal ''Incorrect number of arguments to function double'') world0"
  by (simp add: ev_simps arity_zero_args_def arity_no_params_def arity_scenario_def)

subsection \<open>C2: a \<open>return\<close> of a falsy value\<close>

text \<open>
  Claim C2: a \<open>return\<close> whose single argument evaluates to a falsy value sets the
  pending return value and does not halt: the statements after it still run.

  For a call that has no truthy return value pending, and an argument \<open>e\<close> that
  evaluates to a falsy \<open>v\<close>: \<open>return(e)\<close> stores \<open>v\<close> in \<open>return_value\<close>, and both the
  loop over the statements of the function and the loop over the body of a condition
  go on with the statements that follow.
\<close>

theorem return_falsy_continues:
  assumes "\<not> truthy h (return_value s)"
    and "evaluate k h fns e s = Ok (v, s')"
    and "\<not> truthy h v"
  shows "evaluate k h fns (FunctionCall ''return'' (Some [e])) s = Ok (VNone, s'\<lparr>return_value := v\<rparr>)
       \<and> run_loop k h fns (Expression (FunctionCall ''return'' (Some [e])) # rest) s
           = run_loop k h fns rest (s'\<lparr>return_value := v\<rparr>)
       \<and> evaluate_body k h fns (Expression (FunctionCall ''return'' (Some [e])) # rest) s
           = evaluate_body k h fns rest (s'\<lparr>return_value := v\<rparr>)"
proof -
  have ev: "evaluate k h fns (FunctionCall ''return'' (Some [e])) s = Ok (VNone, s'\<lparr>return_value := v\<rparr>)"
    using assms(1,2) by (simp add: evaluate_return evaluate_params_Some)
  have st: "evaluate_stmt k h fns (Expression (FunctionCall ''return'' (Some [e]))) s
             = Ok (s'\<lparr>return_value := v\<rparr>)"
    using ev by (simp add: evaluate_stmt_Expression)
  show ?thesis using ev st assms(3) by simp
qed

text \<open>Witness for C2: in \<^verbatim>\<open>return(0) print("x")\<close> the \<open>print\<close> runs, and the call
  returns 0; the same with the empty string and with \<open>1 < 0\<close>.\<close>

theorem return_falsy_continues_witness:
  "\<not> truthy plain_host (return_value (state0 :: unit state))
   \<and> evaluate 0 plain_host builtins (Literal (VInt 0)) state0 = Ok (VInt 0, state0)
   \<and> \<not> truthy plain_host (VInt 0 :: unit val)
   \<and> run_loop 0 plain_host builtins [return_of (Literal (VInt 0)), print_x] state0
       = Ok (VInt 0, \<lparr>out = ''x'', inp = []\<rparr>)
   \<and> evaluate 0 plain_host builtins (Literal (VStr [])) state0 = Ok (VStr [], state0)
   \<and> \<not> truthy plain_host (VStr [] :: unit val)
   \<and> run_loop 0 plain_host builtins [return_of (Literal (VStr [])), print_x] state0
       = Ok (VStr [], \<lparr>out = ''x'', inp = []\<rparr>)
   \<and> evaluate 0 plain_host builtins (Comparison (Literal (VInt 1)) (Literal (VInt 0))) state0
       = Ok (VBool False, state0)
   \<and> \<not> truthy plain_host (VBool False :: unit val)
   \<and> run_loop 0 plain_host builtins
         [return_of (Comparison (Literal (VInt 1)) (Literal (VInt 0))), print_x] state0
       = Ok (VBool False, \<lparr>out = ''x'', inp = []\<rparr>)"
  using return_falsy_continues [of plain_host state0 0 builtins "Literal (VInt 0)" "VInt 0"
          state0 "[print_x]"]
    return_falsy_continues [of plain_host state0 0 builtins "Literal (VStr [])" "VStr []"
          state0 "[print_x]"]
    return_falsy_continues [of plain_host state0 0 builtins
          "Comparison (Literal (VInt 1)) (Literal (VInt 0))" "VBool False" state0 "[print_x]"]
  by (simp add: ev_simps)

subsection \<open>C3: the built-in \<open>print\<close>\<close>

text \<open>
  Claim C3 says that \<open>print\<close> without an argument writes no output. In the source it
  calls Python's \<open>print()\<close>, which writes a line feed: the run of
  \<^verbatim>\<open>function main() { print() }\<close> leaves one character on standard output.
\<close>

theorem print_without_argument_counterexample:
  "zprint plain_host [] world0 = Ok (VNone, \<lparr>out = [CHR 0x0A], inp = []\<rparr>)
   \<and> main 1 plain_host (main_only [Expression (FunctionCall ''print'' None)]) world0
       = Ok \<lparr>out = [CHR 0x0A], inp = []\<rparr>
   \<and> main 1 plain_host (main_only [Expression (FunctionCall ''print'' None)]) world0 \<noteq> Ok world0"
  by (simp add: ev_simps)

text \<open>
  Claim C3, amended: \<open>print\<close> without an argument writes a single line feed; with an
  argument it writes the display form of the first argument and no line feed, where a
  boolean is written as \<open>true\<close> or \<open>false\<close> (Python's own text is \<open>True\<close> and
  \<open>False\<close>), and every other value as Python's \<open>str\<close> gives it.
\<close>

theorem print_display:
  "zprint h [] w = Ok (VNone, w\<lparr>out := out w @ [CHR 0x0A]\<rparr>)
   \<and> zprint h (VBool True # rest) w = Ok (VNone, w\<lparr>out := out w @ ''true''\<rparr>)
   \<and> zprint h (VBool False # rest) w = Ok (VNone, w\<lparr>out := out w @ ''false''\<rparr>)
   \<and> zprint h (VInt i # rest) w = Ok (VNone, w\<lparr>out := out w @ show_int i\<rparr>)
   \<and> zprint h (VStr t # rest) w = Ok (VNone, w\<lparr>out := out w @ t\<rparr>)
   \<and> zprint h (VFloat x # rest) w = Ok (VNone, w\<lparr>out := out w @ float_str h x\<rparr>)
   \<and> zprint h (VNone # rest) w = Ok (VNone, w\<lparr>out := out w @ ''None''\<rparr>)
   \<and> py_str h (VBool True) = ''True'' \<and> py_str h (VBool False) = ''False''"
  by (simp add: zprint_def)

text \<open>Witness for C3: the amended statement at \<open>print(1 < 2)\<close> and \<open>print(-12)\<close>.\<close>

theorem print_display_witness:
  "zprint plain_host [VBool True] world0 = Ok (VNone, \<lparr>out = ''true'', inp = []\<rparr>)
   \<and> zprint plain_host [VInt (- 12)] world0 = Ok (VNone, \<lparr>out = ''-12'', inp = []\<rparr>)"
  using print_display [of plain_host world0 "[]" "- 12" "[]" "()"]
  by (simp add: world0_def show_int_def digit_char_def)

subsection \<open>C4: the entry point\<close>

text \<open>
  What \<open>visit_program\<close> does with the declarations it is given. Without a declaration
  named \<open>main\<close> the result is the error \<open>Program needs a main function.\<close> in the world
  as it was, for every depth bound. With one, what is run is the last declaration of
  that name, which is also what the registry holds under \<open>main\<close>, with the empty
  argument tuple.
\<close>

lemma visit_program_without_main:
  assumes "\<forall>fn \<in> set children. name fn \<noteq> ''main''"
  shows "visit_program n h children builtins w = Err (Fatal ''Program needs a main function.'') w"
proof -
  from assms have "filter (\<lambda>f. name f = ''main'') children = []"
    by (simp add: filter_empty_iff)
  then have "fst (visit_program_loop children None builtins) = None"
    by (simp add: visit_program_loop_main)
  then show ?thesis
    by (auto simp: visit_program_def split: prod.splits)
qed

lemma visit_program_with_main:
  assumes "\<exists>fn \<in> set children. name fn = ''main''"
  shows "snd (visit_program_loop children None builtins) ''main''
           = Some (User (last (filter (\<lambda>f. name f = ''main'') children)))"
    and "visit_program n h children builtins w =
          (case run n h (snd (visit_program_loop children None builtins))
                  (User (last (filter (\<lambda>f. name f = ''main'') children))) [] w of
             Ok (v, w') \<Rightarrow> Ok w'
           | Err e w' \<Rightarrow> Err e w'
           | OutOfFuel \<Rightarrow> OutOfFuel)"
proof -
  from assms have "filter (\<lambda>f. name f = ''main'') children \<noteq> []"
    by (simp add: filter_empty_iff)
  then obtain g gs where gs: "filter (\<lambda>f. name f = ''main'') children = g # gs"
    by (cases "filter (\<lambda>f. name f = ''main'') children") auto
  show "snd (visit_program_loop children None builtins) ''main''
        = Some (User (last (filter (\<lambda>f. name f = ''main'') children)))"
    by (simp add: visit_program_loop_registry gs)
  have "fst (visit_program_loop children None builtins)
          = Some (last (filter (\<lambda>f. name f = ''main'') children))"
    by (simp add: visit_program_loop_main gs)
  then show "visit_program n h children builtins w =
          (case run n h (snd (visit_program_loop children None builtins))
                  (User (last (filter (\<lambda>f. name f = ''main'') children))) [] w of
             Ok (v, w') \<Rightarrow> Ok w'
           | Err e w' \<Rightarrow> Err e w'
           | OutOfFuel \<Rightarrow> OutOfFuel)"
    by (auto simp: visit_program_def split: prod.splits)
qed

lemma main_of_declarations:
  "children \<noteq> [] \<Longrightarrow> main n h children w = visit_program n h children builtins w"
  by (simp add: main_def)

text \<open>
  Claim C4: a program without a function named \<open>main\<close> fails with the fatal
  missing-entry-point error before any statement runs; otherwise the evaluator is
  invoked on the registered \<open>main\<close> with zero arguments.

  The test for a missing \<open>main\<close> is made in \<open>visit_program\<close>, and a source text
  without any declaration never gets there: the empty program has no \<open>main\<close>, and its
  run ends in the exception of the parser library, not in the error
  \<open>Program needs a main function.\<close> A program that declares only \<open>f\<close> does end in that
  error, with nothing run, and a program with \<open>main\<close> is run from \<open>main\<close>.
\<close>

theorem empty_program_misses_entry_error:
  "main 1 plain_host [] world0 = Err EmptyParseTree world0
   \<and> main 1 plain_host [] world0 \<noteq> Err (Fatal ''Program needs a main function.'') world0
   \<and> main 1 plain_host no_main_program world0
       = Err (Fatal ''Program needs a main function.'') world0
   \<and> main 1 plain_host scenario1 world0 = Ok \<lparr>out = ''small'', inp = []\<rparr>"
  by (simp add: no_main_program_def scenario1_def ev_simps)

subsection \<open>C5: the built-in \<open>add\<close>\<close>

text \<open>
  Claim C5: \<open>add\<close> returns the host's sum of its first two arguments, and a call with
  fewer than two arguments, none or exactly one, is a fatal argument error.

  \<open>zadd\<close> tests only \<open>if not args\<close>. With no argument it reports
  \<open>No arguments provided to function add.\<close>; with exactly one argument the test passes
  and \<open>args[1]\<close> raises the host's \<open>IndexError\<close>, which nothing catches
  (\<open>zadd_one_argument\<close>). With two or more it returns the sum.
\<close>

theorem add_one_argument:
  "zadd plain_host [VInt 1] world0 = Err IndexError world0
   \<and> main 1 plain_host (main_only [Expression (FunctionCall ''add'' (Some [Literal (VInt 1)]))]) world0
       = Err IndexError world0
   \<and> main 1 plain_host (main_only [Expression (FunctionCall ''add'' None)]) world0
       = Err (Fatal ''No arguments provided to function add.'') world0"
  by (simp add: ev_simps)

subsection \<open>C6: conditions\<close>



subsection \<open>C7: identifiers\<close>

text \<open>
  Claim C7: an identifier evaluates to the value bound to its name in the local scope
  of the current invocation; without a binding there, evaluation fails with the fatal
  undefined-variable error; the bindings of other invocations are never consulted.

  For an identifier that is evaluated, that is, with no truthy return value pending:
  the result is the binding in \<open>local\<close>, or the error that names the variable. A callee
  starts from a scope that holds its parameters and nothing else, and evaluating an
  expression, calls included, leaves the scope of the caller as it was.
\<close>

theorem identifier_lookup:
  assumes "\<not> truthy h (return_value s)"
  shows "(local s x = Some v \<longrightarrow> evaluate k h fns (Identifier x) s = Ok (v, s))
       \<and> (local s x = None \<longrightarrow>
            evaluate k h fns (Identifier x) s = Err (Fatal (''Undefined variable '' @ x)) (io s))
       \<and> (bind_params f args = Inr loc \<longrightarrow>
            run (Suc k) h fns (User f) [Some args] w
              = run_loop k h fns (statements f) \<lparr>local = loc, return_value = VNone, io = w\<rparr>
          \<and> dom loc \<subseteq> (case params f of None \<Rightarrow> {} | Some ps \<Rightarrow> set ps))
       \<and> (evaluate k h fns e s = Ok (v', s') \<longrightarrow> local s' = local s)"
  using assms
  by (auto simp: evaluate_Identifier run_User dest: evaluate_local bind_params_dom [THEN subsetD])

text \<open>Witness for C7: a bound and an unbound name; a call of \<open>f($a)\<close>; and a caller whose
  variable \<open>$x\<close> the callee does not see.\<close>

theorem identifier_lookup_witness:
  "\<not> truthy plain_host (return_value (state0 :: unit state))
   \<and> local (state0\<lparr>local := [''$x'' \<mapsto> VInt 7]\<rparr> :: unit state) ''$x'' = Some (VInt 7)
   \<and> evaluate 0 plain_host builtins (Identifier ''$x'') (state0\<lparr>local := [''$x'' \<mapsto> VInt 7]\<rparr>)
        = Ok (VInt 7, state0\<lparr>local := [''$x'' \<mapsto> VInt 7]\<rparr>)
   \<and> local (state0 :: unit state) ''$y'' = None
   \<and> evaluate 0 plain_host builtins (Identifier ''$y'') state0
        = Err (Fatal ''Undefined variable $y'') world0
   \<and> bind_params (one_param :: unit Function) [VInt 1] = Inr [''$a'' \<mapsto> VInt 1]
   \<and> run 1 plain_host builtins (User one_param) [Some [VInt 1]] world0
        = Ok (VNone, \<lparr>out = ''x'', inp = []\<rparr>)
   \<and> main 2 plain_host scope_program world0 = Err (Fatal ''Undefined variable $x'') world0"
  using identifier_lookup [of plain_host "state0\<lparr>local := [''$x'' \<mapsto> VInt 7]\<rparr>" "''$x''" "VInt 7"
          0 builtins one_param "[VInt 1]" "[''$a'' \<mapsto> VInt 1]" world0 "Identifier ''$x''"
          "VInt 7" "state0\<lparr>local := [''$x'' \<mapsto> VInt 7]\<rparr>"]
    identifier_lookup [of plain_host state0 "''$y''" "VInt 7"
          0 builtins one_param "[VInt 1]" "[''$a'' \<mapsto> VInt 1]" world0 "Literal (VInt 7)"
          "VInt 7" state0]
  by (simp add: ev_simps one_param_def scope_program_def)

subsection \<open>C8: the names in the registry\<close>

text \<open>
  Claim C8 says that the names in the registry are exactly the names of the declared
  functions. The dictionary that \<open>main\<close> hands to the visitor already holds the four
  built-ins: after \<^verbatim>\<open>function main() { }\<close> the registry has the name \<open>add\<close>, which the
  program does not declare.
\<close>

theorem registry_names_counterexample:
  "dom (snd (visit_program_loop (main_only [] :: unit Function list) None builtins))
     \<noteq> name ` set (main_only [] :: unit Function list)
   \<and> ''add'' \<in> dom (snd (visit_program_loop (main_only [] :: unit Function list) None builtins))"
proof -
  have "''add'' \<in> dom (snd (visit_program_loop (main_only [] :: unit Function list) None builtins))"
    by (simp add: main_only_def builtins_def)
  moreover have "''add'' \<notin> name ` set (main_only [] :: unit Function list)"
    by (simp add: main_only_def)
  ultimately show ?thesis by blast
qed

text \<open>
  Claim C8, amended: the names in the registry are the names of the declared functions
  together with \<open>add\<close>, \<open>get\<close>, \<open>not\<close> and \<open>print\<close>, and every declared name is
  bound to the last declaration of that name in the text (also when the name is that of
  a built-in).
\<close>

theorem registry_names:
  "dom (snd (visit_program_loop children m builtins))
     = {''add'', ''get'', ''not'', ''print''} \<union> name ` set children
   \<and> (\<forall>fn \<in> set children.
        snd (visit_program_loop children m builtins) (name fn)
          = Some (User (last (filter (\<lambda>g. name g = name fn) children))))"
proof (intro conjI ballI)
  show "dom (snd (visit_program_loop children m builtins))
     = {''add'', ''get'', ''not'', ''print''} \<union> name ` set children"
    by (auto simp: visit_program_loop_dom builtins_def split: if_splits)
next
  fix fn assume "fn \<in> set children"
  then have "filter (\<lambda>g. name g = name fn) children \<noteq> []"
    by (auto simp: filter_empty_iff)
  then obtain g gs where "filter (\<lambda>g. name g = name fn) children = g # gs"
    by (cases "filter (\<lambda>g. name g = name fn) children") auto
  then show "snd (visit_program_loop children m builtins) (name fn)
          = Some (User (last (filter (\<lambda>g. name g = name fn) children)))"
    by (simp add: visit_program_loop_registry)
qed

text \<open>Witness for C8: a program that declares \<open>f\<close> twice and \<open>main\<close>; the registry
  holds the second \<open>f\<close>.\<close>

theorem registry_names_witness:
  "dom (snd (visit_program_loop (duplicate_program :: unit Function list) None builtins))
     = {''add'', ''get'', ''not'', ''print'', ''f'', ''main''}
   \<and> snd (visit_program_loop (duplicate_program :: unit Function list) None builtins) ''f''
       = Some (User returns_five)"
  using registry_names [of "duplicate_program :: unit Function list" None]
  by (auto simp: duplicate_program_def one_param_def returns_five_def)

subsection \<open>C9: a pending return value\<close>

text \<open>
  Claim C9 says that once the pending return value has been set to a truthy value,
  no later evaluation in the invocation has an effect and the invocation returns that
  value. An evaluation that was under way when the value was set still finishes: in
  \<^verbatim>\<open>return(return(5))\<close> the inner call sets the value 5, and the outer call then stores
  the result of the inner call, which is \<open>None\<close>. The next statement runs, and the
  invocation returns \<open>None\<close>.
\<close>

theorem pending_return_counterexample:
  "evaluate 0 plain_host builtins (FunctionCall ''return'' (Some [Literal (VInt 5)])) state0
     = Ok (VNone, state0\<lparr>return_value := VInt 5\<rparr>)
   \<and> truthy plain_host (VInt 5 :: unit val)
   \<and> run 1 plain_host builtins (User nested_return) [] world0
       = Ok (VNone, \<lparr>out = ''x'', inp = []\<rparr>)"
  by (simp add: ev_simps nested_return_def)

text \<open>
  Claim C9, amended: while the pending return value is truthy, every call of
  \<open>evaluate\<close> in the invocation returns at once and changes nothing, the remaining
  statements of a condition body included; if the value is truthy when a statement of
  the function body ends, the invocation returns it; and a call of a function leaves
  the pending return value and the scope of its caller as the evaluation of the
  arguments left them, whatever the callee returned.
\<close>

theorem pending_return_short_circuit:
  "(truthy h (return_value s) \<longrightarrow>
      evaluate_stmt k h fns st s = Ok s
    \<and> evaluate k h fns e s = Ok (VNone, s)
    \<and> evaluate_body k h fns body s = Ok s)
   \<and> (evaluate_stmt k h fns st s = Ok s' \<and> truthy h (return_value s') \<longrightarrow>
        run_loop k h fns (st # rest) s = Ok (return_value s', io s'))
   \<and> (f \<noteq> ''return'' \<and> evaluate_params k h fns ps s = Ok (r, s1)
        \<and> evaluate k h fns (FunctionCall f ps) s = Ok (v, s2) \<longrightarrow>
        return_value s2 = return_value s1 \<and> local s2 = local s1)"
proof (intro conjI impI)
  assume a: "f \<noteq> ''return'' \<and> evaluate_params k h fns ps s = Ok (r, s1)
        \<and> evaluate k h fns (FunctionCall f ps) s = Ok (v, s2)"
  show "return_value s2 = return_value s1"
    using a by (cases "truthy h (return_value s)")
      (auto simp: evaluate_call split: option.splits result.splits)
  show "local s2 = local s1"
    using a by (cases "truthy h (return_value s)")
      (auto simp: evaluate_call split: option.splits result.splits)
qed simp_all

text \<open>Witness for C9: statements met with the value 5 pending; \<^verbatim>\<open>return(5) print("x")\<close>,
  which prints nothing and returns 5; and a caller of \<^verbatim>\<open>function f() { return(5) }\<close>,
  whose own return value stays \<open>None\<close>.\<close>

theorem pending_return_short_circuit_witness:
  "truthy plain_host (return_value (state0\<lparr>return_value := VInt 5\<rparr> :: unit state))
   \<and> evaluate_stmt 0 plain_host builtins print_x (state0\<lparr>return_value := VInt 5\<rparr>)
        = Ok (state0\<lparr>return_value := VInt 5\<rparr>)
   \<and> evaluate_body 0 plain_host builtins [Assignment ''$x'' (Literal (VInt 1)), print_x]
          (state0\<lparr>return_value := VInt 5\<rparr>)
        = Ok (state0\<lparr>return_value := VInt 5\<rparr>)
   \<and> evaluate_stmt 0 plain_host builtins (return_of (Literal (VInt 5))) state0
        = Ok (state0\<lparr>return_value := VInt 5\<rparr>)
   \<and> run_loop 0 plain_host builtins [return_of (Literal (VInt 5)), print_x] state0
        = Ok (VInt 5, world0)
   \<and> evaluate_params 1 plain_host (builtins(''f'' \<mapsto> User returns_five)) None state0
        = Ok (None, state0)
   \<and> evaluate 1 plain_host (builtins(''f'' \<mapsto> User returns_five)) (FunctionCall ''f'' None) state0
        = Ok (VInt 5, state0)
   \<and> return_value (state0 :: unit state) = VNone"
  using pending_return_short_circuit [of plain_host "state0\<lparr>return_value := VInt 5\<rparr>" 0 builtins
          print_x "Literal (VInt 1)" "[Assignment ''$x'' (Literal (VInt 1)), print_x]"
          "state0\<lparr>return_value := VInt 5\<rparr>" "[]" "''f''" None None
          "state0\<lparr>return_value := VInt 5\<rparr>" VNone "state0\<lparr>return_value := VInt 5\<rparr>"]
    pending_return_short_circuit [of plain_host state0 0 builtins
          "return_of (Literal (VInt 5))" "Literal (VInt 1)" "[]"
          "state0\<lparr>return_value := VInt 5\<rparr>" "[print_x]" "''f''" None None
          state0 VNone state0]
    pending_return_short_circuit [of plain_host state0 1 "builtins(''f'' \<mapsto> User returns_five)"
          print_x "Literal (VInt 1)" "[]"
          state0 "[]" "''f''" None None
          state0 "VInt 5" state0]
  by (simp add: ev_simps returns_five_def)

subsection \<open>C10: surplus arguments of the built-ins\<close>

text \<open>
  Claim C10: the built-ins ignore surplus arguments: \<open>not\<close> negates the truth value of
  its first argument, \<open>print\<close> writes its first argument, \<open>add\<close> adds its first two
  arguments, \<open>get\<close> reads a line whatever it is given, and more arguments than a
  built-in uses are never an error.

  Whatever follows the arguments it uses: \<open>not\<close> returns the negated truth value of the
  first argument and leaves the world alone; \<open>print\<close> appends the display form of the
  first argument, and nothing else, to the output; \<open>add\<close> returns the host's sum of
  the first two arguments, or the error of that sum; \<open>get\<close>, whatever its arguments,
  takes the first line off the input and returns it, converted where the host can
  convert it, and raises \<open>EOFError\<close> only when no line is left. \<open>run\<close> hands the
  arguments to a built-in without comparing their number with anything.
\<close>

theorem builtins_ignore_surplus:
  "znot h (a # rest) w = Ok (VBool (\<not> truthy h a), w)
   \<and> zprint h (a # rest) w =
       Ok (VNone, w\<lparr>out := out w @
            (case a of VBool b \<Rightarrow> if b then ''true'' else ''false'' | _ \<Rightarrow> py_str h a)\<rparr>)
   \<and> zadd h (a # b # rest) w = (case py_add h a b of Inl e \<Rightarrow> Err e w | Inr v \<Rightarrow> Ok (v, w))
   \<and> zget h args (w\<lparr>inp := content # lines\<rparr>) =
       Ok (if CHR ''.'' \<in> set content
           then (case float_of_str h content of Some x \<Rightarrow> VFloat x | None \<Rightarrow> VStr content)
           else (case int_of_str h content of Some i \<Rightarrow> VInt i | None \<Rightarrow> VStr content),
           w\<lparr>inp := lines\<rparr>)
   \<and> zget h args (w\<lparr>inp := []\<rparr>) = Err EOFError (w\<lparr>inp := []\<rparr>)
   \<and> run n h fns (Builtin b') [Some args] w = call_builtin h b' args w"
  by (cases a) (simp_all add: znot_def zprint_def zadd_def zget_def)

text \<open>Witness for C10: \<open>not(0, 1)\<close>, \<open>print("a", "b")\<close>, \<open>add(1, 2, 3)\<close>, and
  \<open>get(1, 2)\<close> on the input lines \<open>42\<close> and \<open>x\<close>, for a host that converts \<open>42\<close>, both
  as the built-in alone and as the program \<^verbatim>\<open>function main() { print(get(1, 2)) }\<close>.\<close>

theorem builtins_ignore_surplus_witness:
  "znot plain_host [VInt 0, VInt 1] world0 = Ok (VBool True, world0)
   \<and> zprint plain_host [VStr ''a'', VStr ''b''] world0 = Ok (VNone, \<lparr>out = ''a'', inp = []\<rparr>)
   \<and> zadd plain_host [VInt 1, VInt 2, VInt 3] world0 = Ok (VInt 3, world0)
   \<and> zget (plain_host\<lparr>int_of_str := (\<lambda>t. if t = ''42'' then Some 42 else None)\<rparr>)
        [VInt 1, VInt 2] \<lparr>out = [], inp = [''42'', ''x'']\<rparr>
       = Ok (VInt 42, \<lparr>out = [], inp = [''x'']\<rparr>)
   \<and> zget plain_host [VInt 1, VInt 2] \<lparr>out = [], inp = []\<rparr>
       = Err EOFError \<lparr>out = [], inp = []\<rparr>
   \<and> main 1 (plain_host\<lparr>int_of_str := (\<lambda>t. if t = ''42'' then Some 42 else None)\<rparr>)
        (main_only [Expression (FunctionCall ''print''
           (Some [FunctionCall ''get'' (Some [Literal (VInt 1), Literal (VInt 2)])]))])
        \<lparr>out = [], inp = [''42'', ''x'']\<rparr>
       = Ok \<lparr>out = ''42'', inp = [''x'']\<rparr>"
  using builtins_ignore_surplus [of plain_host "VInt 0" "[VInt 1]" world0 "VInt 1"
          "[VInt 1, VInt 2]" "[]" "[]" 0 builtins ZAdd]
    builtins_ignore_surplus [of plain_host "VStr ''a''" "[VStr ''b'']" world0 "VStr ''b''"
          "[VInt 1, VInt 2]" "[]" "[]" 0 builtins ZAdd]
    builtins_ignore_surplus [of plain_host "VInt 1" "[VInt 3]" world0 "VInt 2"
          "[VInt 1, VInt 2]" "[]" "[]" 0 builtins ZAdd]
    builtins_ignore_surplus [of "plain_host\<lparr>int_of_str := (\<lambda>t. if t = ''42'' then Some 42 else None)\<rparr>"
          "VInt 0" "[]" world0 "VInt 1" "[VInt 1, VInt 2]" "''42''" "[''x'']" 0 builtins ZGet]
  by (simp add: ev_simps show_int_def digit_char_def)

end
